theory Spec2Isabelle
  imports Main "HOL-Library.AList"
begin

unbundle bit_operations_syntax

section \<open>Python values used by the linter core\<close>

text \<open>
  The embedding follows \<^verbatim>\<open>src/lint/linter.py\<close>. Exceptions are values of the type
  \<open>error\<close>; a computation that may raise returns \<open>error + 'a\<close>, or, where the state at the
  moment of raising matters, an \<open>error option\<close> next to the state reached.
  Diagnostic logging (\<^verbatim>\<open>persist.debug\<close>) has no effect on any value and is left out.
\<close>

datatype error =
    NotImplementedError | KeyError | TypeError | ValueError
  | AttributeError | NameError | IndexError | UnboundLocalError

datatype pyval = PNone | PBool bool | PInt int | PStr string

text \<open>Python's truth value of an object.\<close>

fun truthy :: "pyval \<Rightarrow> bool" where
  "truthy PNone = False"
| "truthy (PBool b) = b"
| "truthy (PInt n) = (n \<noteq> 0)"
| "truthy (PStr s) = (s \<noteq> [])"

text \<open>
  A dict is an association list in insertion order with distinct keys:
  \<open>AList.update\<close> overwrites the value of a key that is present and appends a new key,
  as \<^verbatim>\<open>d[k] = v\<close> does; \<open>dict_update\<close> is \<^verbatim>\<open>d.update(other)\<close>.
\<close>

type_synonym ('k, 'v) dict = "('k \<times> 'v) list"

definition dict_update :: "('k, 'v) dict \<Rightarrow> ('k, 'v) dict \<Rightarrow> ('k, 'v) dict" where
  "dict_update d other = fold (\<lambda>(k, v) acc. AList.update k v acc) other d"

text \<open>\<^verbatim>\<open>xs[a:b]\<close> with Python's treatment of negative and out-of-range bounds.\<close>

definition py_slice :: "'a list \<Rightarrow> int \<Rightarrow> int \<Rightarrow> 'a list" where
  "py_slice xs a b =
     (let n = int (length xs);
          lo = (if a < 0 then max 0 (a + n) else min a n);
          hi = (if b < 0 then max 0 (b + n) else min b n)
      in take (nat (hi - lo)) (drop (nat lo) xs))"

subsection \<open>Strings\<close>

text \<open>
  Strings are lists of 8-bit characters, read as the code points 0 to 255. \<open>is_space\<close> is
  \<^verbatim>\<open>str.isspace\<close> on that range, \<open>strip\<close> is \<^verbatim>\<open>str.strip()\<close>, \<open>lower\<close> is
  \<^verbatim>\<open>str.lower()\<close> (the letters A to Z and the capitals 0xC0 to 0xDE, the sign 0xD7
  apart, go to the code point 0x20 higher), and \<open>splitlines\<close> is \<^verbatim>\<open>str.splitlines()\<close> with
  the line boundaries of that range.
\<close>

definition is_space :: "char \<Rightarrow> bool" where
  "is_space c = (c \<in> set [CHR 0x09, CHR 0x0A, CHR 0x0B, CHR 0x0C, CHR 0x0D,
                          CHR 0x1C, CHR 0x1D, CHR 0x1E, CHR 0x1F, CHR 0x20, CHR 0x85, CHR 0xA0])"

definition strip :: "string \<Rightarrow> string" where
  "strip s = rev (dropWhile is_space (rev (dropWhile is_space s)))"

definition lower_char :: "char \<Rightarrow> char" where
  "lower_char c =
     (case map_of
        (zip
         [CHR 0x41, CHR 0x42, CHR 0x43, CHR 0x44, CHR 0x45, CHR 0x46, CHR 0x47, CHR 0x48,
          CHR 0x49, CHR 0x4A, CHR 0x4B, CHR 0x4C, CHR 0x4D, CHR 0x4E, CHR 0x4F, CHR 0x50,
          CHR 0x51, CHR 0x52, CHR 0x53, CHR 0x54, CHR 0x55, CHR 0x56, CHR 0x57, CHR 0x58,
          CHR 0x59, CHR 0x5A, CHR 0xC0, CHR 0xC1, CHR 0xC2, CHR 0xC3, CHR 0xC4, CHR 0xC5,
          CHR 0xC6, CHR 0xC7, CHR 0xC8, CHR 0xC9, CHR 0xCA, CHR 0xCB, CHR 0xCC, CHR 0xCD,
          CHR 0xCE, CHR 0xCF, CHR 0xD0, CHR 0xD1, CHR 0xD2, CHR 0xD3, CHR 0xD4, CHR 0xD5,
          CHR 0xD6, CHR 0xD8, CHR 0xD9, CHR 0xDA, CHR 0xDB, CHR 0xDC, CHR 0xDD, CHR 0xDE]
         [CHR 0x61, CHR 0x62, CHR 0x63, CHR 0x64, CHR 0x65, CHR 0x66, CHR 0x67, CHR 0x68,
          CHR 0x69, CHR 0x6A, CHR 0x6B, CHR 0x6C, CHR 0x6D, CHR 0x6E, CHR 0x6F, CHR 0x70,
          CHR 0x71, CHR 0x72, CHR 0x73, CHR 0x74, CHR 0x75, CHR 0x76, CHR 0x77, CHR 0x78,
          CHR 0x79, CHR 0x7A, CHR 0xE0, CHR 0xE1, CHR 0xE2, CHR 0xE3, CHR 0xE4, CHR 0xE5,
          CHR 0xE6, CHR 0xE7, CHR 0xE8, CHR 0xE9, CHR 0xEA, CHR 0xEB, CHR 0xEC, CHR 0xED,
          CHR 0xEE, CHR 0xEF, CHR 0xF0, CHR 0xF1, CHR 0xF2, CHR 0xF3, CHR 0xF4, CHR 0xF5,
          CHR 0xF6, CHR 0xF8, CHR 0xF9, CHR 0xFA, CHR 0xFB, CHR 0xFC, CHR 0xFD, CHR 0xFE]) c of
        Some d \<Rightarrow> d
      | None \<Rightarrow> c)"

definition lower :: "string \<Rightarrow> string" where
  "lower s = map lower_char s"

definition is_linebreak :: "char \<Rightarrow> bool" where
  "is_linebreak c = (c \<in> set [CHR 0x0A, CHR 0x0B, CHR 0x0C, CHR 0x0D,
                              CHR 0x1C, CHR 0x1D, CHR 0x1E, CHR 0x85])"

fun splitlines_aux :: "string \<Rightarrow> string \<Rightarrow> string list" where
  "splitlines_aux cur [] = (if cur = [] then [] else [rev cur])"
| "splitlines_aux cur (c # cs) =
     (if c = CHR 0x0D \<and> cs \<noteq> [] \<and> hd cs = CHR 0x0A then rev cur # splitlines_aux [] (tl cs)
      else if is_linebreak c then rev cur # splitlines_aux [] cs
      else splitlines_aux (c # cur) cs)"

definition splitlines :: "string \<Rightarrow> string list" where
  "splitlines s = splitlines_aux [] s"

text \<open>
  \<^verbatim>\<open>int(s)\<close> on a string. Whitespace around the number is dropped: the ASCII characters
  tab, line feed, vertical tab, form feed, carriage return and space, and the two spaces
  0x85 and 0xA0 above ASCII (the separators 0x1C to 0x1F are not dropped by \<^verbatim>\<open>int\<close>).
  One sign is allowed; the rest must be decimal digits, where single underscores may stand
  between digits. Anything else raises ValueError (\<open>None\<close> here).
\<close>

definition is_digit :: "char \<Rightarrow> bool" where
  "is_digit c = (let n = (of_char c :: nat) in 48 \<le> n \<and> n \<le> 57)"

definition int_space :: "char \<Rightarrow> bool" where
  "int_space c = (c \<in> set [CHR 0x09, CHR 0x0A, CHR 0x0B, CHR 0x0C, CHR 0x0D, CHR 0x20,
                           CHR 0x85, CHR 0xA0])"

fun digit_groups :: "string \<Rightarrow> bool" where
  "digit_groups [] = False"
| "digit_groups [c] = is_digit c"
| "digit_groups (c # d # rest) =
     (is_digit c \<and> (if d = CHR ''_'' then rest \<noteq> [] \<and> digit_groups rest
                     else digit_groups (d # rest)))"

definition digits_val :: "string \<Rightarrow> nat" where
  "digits_val ds = foldl (\<lambda>acc c. 10 * acc + ((of_char c :: nat) - 48)) 0 (filter is_digit ds)"

definition py_int :: "string \<Rightarrow> int option" where
  "py_int s =
     (let t = rev (dropWhile int_space (rev (dropWhile int_space s)));
          neg = (t \<noteq> [] \<and> hd t = CHR ''-'');
          ds = (if t \<noteq> [] \<and> (hd t = CHR ''-'' \<or> hd t = CHR ''+'') then tl t else t)
      in if digit_groups ds
         then Some (if neg then - int (digits_val ds) else int (digits_val ds))
         else None)"

text \<open>\<^verbatim>\<open>str(x)\<close> for a value that is a string or None.\<close>

definition py_str :: "string option \<Rightarrow> string" where
  "py_str x = (case x of None \<Rightarrow> ''None'' | Some s \<Rightarrow> s)"

section \<open>Data model\<close>

text \<open>
  A match object is represented by its \<^verbatim>\<open>groupdict()\<close>: every named group of the pattern,
  bound to the text it captured or to None when the group took no part in the match.
  A compiled pattern is the pair of the two methods the core calls on it.
\<close>

type_synonym match = "(string, string option) dict"

record pattern =
  finditer :: "string \<Rightarrow> match list"
  re_match :: "string \<Rightarrow> match option"

text \<open>
  \<^verbatim>\<open>self.regex\<close> holds the pattern source until \<^verbatim>\<open>__init__\<close> has compiled it, and keeps
  holding the source when compilation fails.
\<close>

datatype regex_attr = RegexSrc string | Compiled pattern

datatype lang = LangStr string | LangSeq "string list"

text \<open>
  A column as \<^verbatim>\<open>split_match\<close> leaves it: None, the captured text when that is empty, or
  an integer.
\<close>

datatype colval = ColNone | ColStr string | ColInt int

text \<open>
  The highlight object belongs to \<^verbatim>\<open>lint.highlight\<close>; the core only calls it. It is kept
  as its constructor arguments and the list of calls made on it, oldest first.
\<close>

datatype hl_call = Shift int int | Range int colval | Near int string | Line "int option"

record highlight =
  hl_code :: "string option"
  hl_scope :: string
  hl_outline :: "bool option"
  hl_calls :: "hl_call list"

definition Highlight :: "string option \<Rightarrow> string \<Rightarrow> bool option \<Rightarrow> highlight" where
  "Highlight code sc ol = \<lparr>hl_code = code, hl_scope = sc, hl_outline = ol, hl_calls = []\<rparr>"

definition hl_call :: "hl_call \<Rightarrow> highlight \<Rightarrow> highlight" where
  "hl_call c h = h\<lparr>hl_calls := hl_calls h @ [c]\<rparr>"

text \<open>
  The class attributes of a \<^verbatim>\<open>Linter\<close> subclass. \<open>defaults\<close> is None or a reference to a
  dict object in the store.
\<close>

record linter_class =
  cls_name :: string
  language :: lang
  cmd :: "string list"
  regex :: string
  multiline :: bool
  flags :: int
  tab_size :: int
  scope :: string
  selector :: "string option"
  outline :: bool
  needs_api :: bool
  defaults :: "nat option"

record view =
  view_id :: "nat option"
  view_syntax :: "string option"
  file_name :: "string option"

type_synonym errors_dict = "(int option, string list) dict"

record linter =
  inst_id :: nat
  cls :: linter_class
  view :: view
  syn :: string
  filename :: "string option"
  self_regex :: regex_attr
  self_flags :: int
  errors :: "errors_dict option"
  highlight :: highlight

datatype event = Communicate "string list" string | Clear nat

text \<open>
  The process-wide mutable state: the store of dict objects, \<^verbatim>\<open>persist.languages\<close>,
  \<^verbatim>\<open>persist.linters\<close> (a set of instances is kept as the list in which it is iterated),
  the \<^verbatim>\<open>plugins\<close> entry of \<^verbatim>\<open>persist.settings\<close>, the supply of instance identities, and
  the trace of calls that leave the core.
\<close>

record world =
  heap :: "nat \<Rightarrow> (string, pyval) dict"
  next_addr :: nat
  languages :: "(string, linter_class) dict"
  linters :: "nat \<Rightarrow> linter list option"
  plugins :: "string \<Rightarrow> (string, pyval) dict option"
  next_inst :: nat
  trace :: "event list"

text \<open>
  What the file uses and does not define: \<^verbatim>\<open>util.communicate\<close>, \<^verbatim>\<open>Highlight.full_line\<close>
  and \<^verbatim>\<open>re.compile\<close> (None when it raises).
\<close>

record env =
  communicate :: "string list \<Rightarrow> string \<Rightarrow> string"
  full_line :: "highlight \<Rightarrow> int \<Rightarrow> int \<times> int"
  re_compile :: "string \<Rightarrow> int \<Rightarrow> pattern option"

section \<open>Construction and settings\<close>

text \<open>\<^verbatim>\<open>Linter.__init__\<close>; \<^verbatim>\<open>re.MULTILINE\<close> is 8.\<close>

definition new_linter :: "env \<Rightarrow> linter_class \<Rightarrow> nat \<Rightarrow> view \<Rightarrow> string \<Rightarrow> string option \<Rightarrow> linter" where
  "new_linter ev c i v s f =
     (let fl = (if regex c \<noteq> [] \<and> multiline c then flags c OR 8 else flags c);
          rx = (if regex c \<noteq> []
                then (case re_compile ev (regex c) fl of
                        Some p \<Rightarrow> Compiled p
                      | None \<Rightarrow> RegexSrc (regex c))
                else RegexSrc (regex c))
      in \<lparr>inst_id = i, cls = c, view = v, syn = s, filename = f, self_regex = rx,
          self_flags = fl, errors = None, highlight = Highlight None (scope c) None\<rparr>)"

text \<open>
  \<^verbatim>\<open>get_settings\<close>: \<^verbatim>\<open>cls.defaults or {}\<close> is the class's own dict object when that is
  non-empty and a new empty dict otherwise; \<^verbatim>\<open>update\<close> then writes into that object.
  The result is the reference returned and the store afterwards.
\<close>

definition get_settings :: "linter_class \<Rightarrow> world \<Rightarrow> nat \<times> world" where
  "get_settings c w =
     (let plug = (case plugins w (cls_name c) of Some d \<Rightarrow> d | None \<Rightarrow> []);
          (settings, w1) =
            (case defaults c of
               Some a \<Rightarrow> if heap w a \<noteq> [] then (a, w)
                         else (next_addr w, w\<lparr>heap := (heap w)(next_addr w := []),
                                               next_addr := Suc (next_addr w)\<rparr>)
             | None \<Rightarrow> (next_addr w, w\<lparr>heap := (heap w)(next_addr w := []),
                                        next_addr := Suc (next_addr w)\<rparr>))
      in (settings, w1\<lparr>heap := (heap w1)(settings := dict_update (heap w1 settings) plug)\<rparr>))"

text \<open>\<^verbatim>\<open>can_lint\<close>; the implicit None of the last path counts as false.\<close>

definition can_lint :: "linter_class \<Rightarrow> string \<Rightarrow> bool" where
  "can_lint c lang0 =
     (let l = lower lang0 in
      case language c of
        LangStr s \<Rightarrow> if s \<noteq> [] then (if l = s then True else False) else False
      | LangSeq ss \<Rightarrow> if ss \<noteq> [] then (if l \<in> set ss then True else False) else False)"

section \<open>The output parser\<close>

type_synonym parse_result =
  "match option \<times> int option \<times> colval \<times> string option \<times> string option"

text \<open>\<^verbatim>\<open>items[k]\<close>, raising KeyError on a missing key.\<close>

definition getitem :: "('k, 'v) dict \<Rightarrow> 'k \<Rightarrow> error + 'v" where
  "getitem d k = (case map_of d k of None \<Rightarrow> Inl KeyError | Some v \<Rightarrow> Inr v)"

text \<open>
  \<^verbatim>\<open>split_match\<close>. A match object is always true. The four keys are read in the order
  \<^verbatim>\<open>('error', 'line', 'col', 'near')\<close>; \<^verbatim>\<open>int(None)\<close> raises TypeError.
\<close>

definition split_match :: "match option \<Rightarrow> error + parse_result" where
  "split_match m =
     (case m of
        None \<Rightarrow> Inr (None, None, ColNone, Some [], None)
      | Some g \<Rightarrow>
          (let items = dict_update
                 [(''row'', None), (''col'', None), (''error'', Some []), (''near'', None)] g
           in case getitem items ''error'' of
                Inl e \<Rightarrow> Inl e
              | Inr err \<Rightarrow>
             (case getitem items ''line'' of
                Inl e \<Rightarrow> Inl e
              | Inr row \<Rightarrow>
             (case getitem items ''col'' of
                Inl e \<Rightarrow> Inl e
              | Inr col \<Rightarrow>
             (case getitem items ''near'' of
                Inl e \<Rightarrow> Inl e
              | Inr near \<Rightarrow>
             (case row of
                None \<Rightarrow> Inl TypeError
              | Some rs \<Rightarrow>
                  (case py_int rs of
                     None \<Rightarrow> Inl ValueError
                   | Some r \<Rightarrow>
                       (case col of
                          None \<Rightarrow> Inr (m, Some (r - 1), ColNone, err, near)
                        | Some cs \<Rightarrow>
                            (if cs \<noteq> []
                             then (case py_int cs of
                                     None \<Rightarrow> Inl ValueError
                                   | Some c \<Rightarrow> Inr (m, Some (r - 1), ColInt (c - 1), err, near))
                             else Inr (m, Some (r - 1), ColStr cs, err, near))))))))))"

text \<open>
  \<^verbatim>\<open>match_error\<close>: the line is text already (a \<open>string\<close>), so the \<^verbatim>\<open>bytes\<close> branch is not
  taken; calling \<^verbatim>\<open>match\<close> on a pattern that is still its source string raises
  AttributeError.
\<close>

definition match_error :: "regex_attr \<Rightarrow> string \<Rightarrow> error + parse_result" where
  "match_error r line =
     (case r of
        RegexSrc _ \<Rightarrow> Inl AttributeError
      | Compiled p \<Rightarrow> split_match (re_match p line))"

text \<open>
  The truth value of the iterator object that \<^verbatim>\<open>finditer\<close> returns: an iterator defines
  neither \<^verbatim>\<open>__bool__\<close> nor \<^verbatim>\<open>__len__\<close>, so it is true whatever it will yield.
\<close>

definition iterator_truthy :: "'a list \<Rightarrow> bool" where
  "iterator_truthy it = True"

text \<open>
  \<^verbatim>\<open>find_errors\<close> is a generator: the list holds what it yields, in order, each element
  being the result or the exception of the call that computes it; the consumer stops at
  the first exception.
\<close>

definition find_errors :: "linter \<Rightarrow> string \<Rightarrow> (error + parse_result) list" where
  "find_errors self output =
     (if multiline (cls self)
      then (case self_regex self of
              RegexSrc _ \<Rightarrow> [Inl AttributeError]
            | Compiled p \<Rightarrow>
                (let errs = finditer p output
                 in if iterator_truthy errs
                    then map (\<lambda>e. split_match (Some e)) errs
                    else [split_match None]))
      else map (\<lambda>line. match_error (self_regex self) (strip line)) (splitlines output))"


section \<open>Recording diagnostics\<close>

text \<open>
  \<^verbatim>\<open>error\<close>: the line is a key of the errors dict as it is passed, None included.
  With \<^verbatim>\<open>self.errors\<close> still None the membership test raises TypeError.
\<close>

definition error :: "int option \<Rightarrow> string option \<Rightarrow> linter \<Rightarrow> error option \<times> linter" where
  "error line err self =
     (let self1 = self\<lparr>highlight := hl_call (Line line) (highlight self)\<rparr>;
          msg = py_str err
      in case errors self1 of
           None \<Rightarrow> (Some TypeError, self1)
         | Some d \<Rightarrow>
             (case map_of d line of
                Some ms \<Rightarrow> (None, self1\<lparr>errors := Some (AList.update line (ms @ [msg]) d)\<rparr>)
              | None \<Rightarrow> (None, self1\<lparr>errors := Some (AList.update line [msg] d)\<rparr>)))"

fun col_given :: "colval \<Rightarrow> bool" where
  "col_given ColNone = False"
| "col_given (ColStr s) = (s \<noteq> [])"
| "col_given (ColInt n) = (n \<noteq> 0 \<or> n = 0)"

text \<open>
  The body of \<^verbatim>\<open>if row or row is 0:\<close> for a row that is there. With a column and a tab
  size above 1 the source goes on to \<^verbatim>\<open>for i in xrange(len(code_line)):\<close>. The file is
  Python 3 (\<^verbatim>\<open>class Linter(metaclass=Tracker)\<close>, \<^verbatim>\<open>from queue import Queue\<close>), and
  Python 3 has no \<^verbatim>\<open>xrange\<close>; the file neither defines nor imports the name. Evaluating
  the loop header raises NameError: the body of the loop never runs, and neither does
  \<^verbatim>\<open>self.highlight.range\<close> after it.
\<close>

definition mark :: "env \<Rightarrow> string \<Rightarrow> int \<Rightarrow> colval \<Rightarrow> string option \<Rightarrow> linter \<Rightarrow> error option \<times> linter" where
  "mark ev code row col near self =
     (if col_given col
      then (if tab_size (cls self) > 1
            then (let (start, stop) = full_line ev (highlight self) row;
                      code_line = py_slice code start stop
                  in (Some NameError, self))
            else (None, self\<lparr>highlight := hl_call (Range row col) (highlight self)\<rparr>))
      else (case near of
              Some s \<Rightarrow>
                if s \<noteq> [] then (None, self\<lparr>highlight := hl_call (Near row s) (highlight self)\<rparr>)
                else (None, self\<lparr>highlight := hl_call (Line (Some row)) (highlight self)\<rparr>)
            | None \<Rightarrow> (None, self\<lparr>highlight := hl_call (Line (Some row)) (highlight self)\<rparr>)))"

text \<open>The body of the loop of \<^verbatim>\<open>lint\<close> for one parse result.\<close>

definition lint_match :: "env \<Rightarrow> string \<Rightarrow> parse_result \<Rightarrow> linter \<Rightarrow> error option \<times> linter" where
  "lint_match ev code res self =
     (case res of (m, row, col, message, near) \<Rightarrow>
        if m \<noteq> None
        then (case (case row of
                      Some r \<Rightarrow> if r \<noteq> 0 \<or> r = 0 then mark ev code r col near self
                                else (None, self)
                    | None \<Rightarrow> (None, self)) of
                (Some e, self1) \<Rightarrow> (Some e, self1)
              | (None, self1) \<Rightarrow> error row message self1)
        else (None, self))"

fun lint_loop :: "env \<Rightarrow> string \<Rightarrow> (error + parse_result) list \<Rightarrow> linter \<Rightarrow> error option \<times> linter" where
  "lint_loop ev code [] self = (None, self)"
| "lint_loop ev code (Inl e # rest) self = (Some e, self)"
| "lint_loop ev code (Inr r # rest) self =
     (case lint_match ev code r self of
        (Some e, self1) \<Rightarrow> (Some e, self1)
      | (None, self1) \<Rightarrow> lint_loop ev code rest self1)"

fun lang_truthy :: "lang \<Rightarrow> bool" where
  "lang_truthy (LangStr s) = (s \<noteq> [])"
| "lang_truthy (LangSeq ss) = (ss \<noteq> [])"

fun regex_truthy :: "regex_attr \<Rightarrow> bool" where
  "regex_truthy (RegexSrc s) = (s \<noteq> [])"
| "regex_truthy (Compiled p) = True"

text \<open>
  \<^verbatim>\<open>lint\<close>. The result is the exception raised, if any, with the instance and the world
  as they are when it returns or raises.
\<close>

definition lint :: "env \<Rightarrow> string \<Rightarrow> linter \<times> world \<Rightarrow> error option \<times> linter \<times> world" where
  "lint ev code sw =
     (case sw of (self, w) \<Rightarrow>
        if \<not> (lang_truthy (language (cls self)) \<and> cmd (cls self) \<noteq> []
               \<and> regex_truthy (self_regex self))
        then (Some NotImplementedError, self, w)
        else (let output = communicate ev (cmd (cls self)) code;
                  w1 = w\<lparr>trace := trace w @ [Communicate (cmd (cls self)) code]\<rparr>
              in if output \<noteq> []
                 then (case lint_loop ev code (find_errors self output) self of
                         (e, self1) \<Rightarrow> (e, self1, w1))
                 else (None, self, w1)))"

text \<open>
  \<^verbatim>\<open>pre_lint\<close>. A highlight object that is passed in is true (its class defines no truth
  value of its own), so it is the one installed. With \<^verbatim>\<open>needs_api\<close> the queue hand-over
  runs \<^verbatim>\<open>callback\<close> at once, in the same thread: \<^verbatim>\<open>lint\<close> is called there.
\<close>

definition pre_lint :: "env \<Rightarrow> string \<Rightarrow> highlight option \<Rightarrow> linter \<times> world \<Rightarrow> error option \<times> linter \<times> world" where
  "pre_lint ev code hl sw =
     (case sw of (self, w) \<Rightarrow>
        (let self1 = self\<lparr>errors := Some [],
                         highlight := (case hl of
                                         Some h \<Rightarrow> h
                                       | None \<Rightarrow> Highlight (Some code) (scope (cls self))
                                                   (Some (outline (cls self))))\<rparr>
         in if code = [] then (None, self1, w)
            else if needs_api (cls self) then lint ev code (self1, w)
            else lint ev code (self1, w)))"

section \<open>The document registry\<close>

text \<open>\<^verbatim>\<open>remove\<close>; \<^verbatim>\<open>linter.clear()\<close> is a call into the editor, kept in the trace.\<close>

definition remove :: "nat \<Rightarrow> world \<Rightarrow> world" where
  "remove vid w =
     (case linters w vid of
        None \<Rightarrow> w
      | Some ls \<Rightarrow> w\<lparr>trace := trace w @ map (\<lambda>l. Clear (inst_id l)) ls,
                      linters := (linters w)(vid := None)\<rparr>)"

text \<open>
  \<^verbatim>\<open>syntax_re.search(syn)\<close> for \<^verbatim>\<open>/([^/]+)\.tmLanguage$\<close>, giving the group: the slash
  matched is the last one of the string, since neither the group nor what follows it holds
  a slash, and \<^verbatim>\<open>$\<close> is the end of the string or the newline that ends it.
\<close>

definition ends_with :: "string \<Rightarrow> string \<Rightarrow> bool" where
  "ends_with t suf = (length suf \<le> length t \<and> drop (length t - length suf) t = suf)"

definition syntax_search :: "string \<Rightarrow> string option" where
  "syntax_search s =
     (if CHR ''/'' \<notin> set s then None
      else (let t = rev (takeWhile (\<lambda>c. c \<noteq> CHR ''/'') (rev s));
                g = (if ends_with t ''.tmLanguage'' then take (length t - 11) t
                     else if ends_with t (''.tmLanguage'' @ [CHR 0x0A]) then take (length t - 12) t
                     else [])
            in if g \<noteq> [] then Some g else None))"

text \<open>
  The loop of \<^verbatim>\<open>assign\<close> over \<^verbatim>\<open>persist.languages.items()\<close>; every instance made takes
  the next identity.
\<close>

fun make_linters :: "env \<Rightarrow> view \<Rightarrow> string \<Rightarrow> (string, linter_class) dict \<Rightarrow> nat \<Rightarrow> linter list \<times> nat" where
  "make_linters ev v s [] n = ([], n)"
| "make_linters ev v s ((name, entry) # rest) n =
     (if can_lint entry s
      then (case make_linters ev v s rest (Suc n) of
              (ls, n1) \<Rightarrow> (new_linter ev entry n v s (file_name v) # ls, n1))
      else make_linters ev v s rest n)"

text \<open>
  \<^verbatim>\<open>assign\<close>. When \<^verbatim>\<open>view.id()\<close> raises RuntimeError (\<open>view_id v = None\<close>) the handler
  leaves \<^verbatim>\<open>vid\<close> unbound, and every path then reads it. The value returned is None on every
  path but the one that stores new instances.
\<close>

definition assign :: "env \<Rightarrow> view \<Rightarrow> world \<Rightarrow> error + (linter list option \<times> world)" where
  "assign ev v w =
     (case view_id v of
        None \<Rightarrow> Inl UnboundLocalError
      | Some vid \<Rightarrow>
          (case view_syntax v of
             None \<Rightarrow> Inr (None, remove vid w)
           | Some syn0 \<Rightarrow>
               if syn0 = [] then Inr (None, remove vid w)
               else (let syntax = (case syntax_search syn0 of Some g \<Rightarrow> g | None \<Rightarrow> syn0)
                     in if syntax \<noteq> []
                        then (if (case linters w vid of
                                    Some (l # _) \<Rightarrow> syn l = syntax
                                  | _ \<Rightarrow> False)
                              then Inr (None, w)
                              else (case make_linters ev v syntax (languages w) (next_inst w) of
                                      (ls, n) \<Rightarrow>
                                        if ls \<noteq> []
                                        then Inr (Some ls, w\<lparr>linters := (linters w)(vid \<mapsto> ls),
                                                             next_inst := n\<rparr>)
                                        else Inr (None, remove vid (w\<lparr>next_inst := n\<rparr>))))
                        else Inr (None, remove vid w))))"

section \<open>Linting a view\<close>

type_synonym sections = "string \<Rightarrow> (int \<times> int \<times> int) list option"

definition dict_get :: "(string, pyval) dict \<Rightarrow> string \<Rightarrow> pyval" where
  "dict_get d k = (case map_of d k of Some v \<Rightarrow> v | None \<Rightarrow> PNone)"

fun selector_truthy :: "string option \<Rightarrow> bool" where
  "selector_truthy None = False"
| "selector_truthy (Some s) = (s \<noteq> [])"

text \<open>
  The first loop of \<^verbatim>\<open>lint_view\<close>. The instances are objects changed in place: the
  list returned holds them as they are afterwards, in the same order.
\<close>

fun lint_whole :: "env \<Rightarrow> string option \<Rightarrow> string \<Rightarrow> linter list \<Rightarrow> world \<Rightarrow> error option \<times> linter list \<times> world" where
  "lint_whole ev fname code [] w = (None, [], w)"
| "lint_whole ev fname code (l # ls) w =
     (case get_settings (cls l) w of (sa, w1) \<Rightarrow>
        if truthy (dict_get (heap w1 sa) ''disable'')
        then (case lint_whole ev fname code ls w1 of (e, ls1, w2) \<Rightarrow> (e, l # ls1, w2))
        else if \<not> selector_truthy (selector (cls l))
        then (case pre_lint ev code None (l\<lparr>filename := fname\<rparr>, w1) of
                (Some e, l1, w2) \<Rightarrow> (Some e, l1 # ls, w2)
              | (None, l1, w2) \<Rightarrow>
                  (case lint_whole ev fname code ls w2 of (e, ls1, w3) \<Rightarrow> (e, l1 # ls1, w3)))
        else (case lint_whole ev fname code ls w1 of (e, ls1, w2) \<Rightarrow> (e, l # ls1, w2)))"

text \<open>
  The innermost loop: \<^verbatim>\<open>errors[line+line_offset] = error\<close> for every item of the
  instance's errors; None plus an integer raises TypeError.
\<close>

fun rekey :: "int \<Rightarrow> errors_dict \<Rightarrow> errors_dict \<Rightarrow> error + errors_dict" where
  "rekey off [] acc = Inr acc"
| "rekey off ((line, err) # rest) acc =
     (case line of
        None \<Rightarrow> Inl TypeError
      | Some n \<Rightarrow> rekey off rest (AList.update (Some (n + off)) err acc))"

text \<open>
  The loop over the sections of one selector. The highlight passed to \<^verbatim>\<open>pre_lint\<close> is the
  object the instance then holds, so the next round goes on from the instance's highlight.
\<close>

fun lint_sections :: "env \<Rightarrow> string \<Rightarrow> (int \<times> int \<times> int) list \<Rightarrow> highlight \<Rightarrow> errors_dict \<Rightarrow> linter \<times> world \<Rightarrow> error option \<times> errors_dict \<times> linter \<times> world" where
  "lint_sections ev code [] hl acc (l, w) = (None, acc, l, w)"
| "lint_sections ev code ((off, left, right) # rest) hl acc (l, w) =
     (case pre_lint ev (py_slice code left right) (Some (hl_call (Shift off left) hl)) (l, w) of
        (Some e, l1, w1) \<Rightarrow> (Some e, acc, l1, w1)
      | (None, l1, w1) \<Rightarrow>
          (case errors l1 of
             None \<Rightarrow> (Some AttributeError, acc, l1, w1)
           | Some d \<Rightarrow>
               (case rekey off d acc of
                  Inl e \<Rightarrow> (Some e, acc, l1, w1)
                | Inr acc1 \<Rightarrow> lint_sections ev code rest (highlight l1) acc1 (l1, w1))))"

text \<open>The body of the second loop of \<^verbatim>\<open>lint_view\<close> for one instance with a selector.\<close>

definition lint_selected :: "env \<Rightarrow> string \<Rightarrow> sections \<Rightarrow> linter \<times> world \<Rightarrow> error option \<times> linter \<times> world" where
  "lint_selected ev code secs sw =
     (case sw of (l, w) \<Rightarrow>
        (case selector (cls l) of
           None \<Rightarrow> (None, l, w)
         | Some sel \<Rightarrow>
             (case secs sel of
                None \<Rightarrow> (None, l, w)
              | Some ss \<Rightarrow>
                  (case lint_sections ev code ss
                          (Highlight (Some code) (scope (cls l)) (Some (outline (cls l)))) [] (l, w) of
                     (Some e, acc, l1, w1) \<Rightarrow> (Some e, l1, w1)
                   | (None, acc, l1, w1) \<Rightarrow> (None, l1\<lparr>errors := Some acc\<rparr>, w1)))))"

text \<open>The second loop: the instances that \<^verbatim>\<open>get_selectors\<close> keeps, in order.\<close>

fun lint_selectors :: "env \<Rightarrow> string \<Rightarrow> sections \<Rightarrow> linter list \<Rightarrow> world \<Rightarrow> error option \<times> linter list \<times> world" where
  "lint_selectors ev code secs [] w = (None, [], w)"
| "lint_selectors ev code secs (l # ls) w =
     (if selector_truthy (selector (cls l))
      then (case lint_selected ev code secs (l, w) of
              (Some e, l1, w1) \<Rightarrow> (Some e, l1 # ls, w1)
            | (None, l1, w1) \<Rightarrow>
                (case lint_selectors ev code secs ls w1 of (e, ls1, w2) \<Rightarrow> (e, l1 # ls1, w2)))
      else (case lint_selectors ev code secs ls w of (e, ls1, w1) \<Rightarrow> (e, l # ls1, w1)))"

text \<open>
  \<^verbatim>\<open>lint_view\<close>. The result is the exception raised, if any, the arguments handed to
  \<^verbatim>\<open>callback\<close>, if it is reached, and the world, whose registry holds the instances as
  the two loops left them.
\<close>

definition lint_view :: "env \<Rightarrow> nat \<Rightarrow> string option \<Rightarrow> string \<Rightarrow> sections \<Rightarrow> world \<Rightarrow> error option \<times> (view \<times> linter list) option \<times> world" where
  "lint_view ev vid fname code secs w =
     (case linters w vid of
        None \<Rightarrow> (None, None, w)
      | Some ls \<Rightarrow>
          (case lint_whole ev fname code ls w of
             (Some e, ls1, w1) \<Rightarrow> (Some e, None, w1\<lparr>linters := (linters w1)(vid \<mapsto> ls1)\<rparr>)
           | (None, ls1, w1) \<Rightarrow>
               (case lint_selectors ev code secs ls1 w1 of
                  (Some e, ls2, w2) \<Rightarrow> (Some e, None, w2\<lparr>linters := (linters w2)(vid \<mapsto> ls2)\<rparr>)
                | (None, ls2, w2) \<Rightarrow>
                    (case ls2 of
                       [] \<Rightarrow> (Some IndexError, None, w2\<lparr>linters := (linters w2)(vid \<mapsto> ls2)\<rparr>)
                     | l # _ \<Rightarrow> (None, Some (view l, ls2),
                                  w2\<lparr>linters := (linters w2)(vid \<mapsto> ls2)\<rparr>)))))"

section \<open>The runs behind a merged map\<close>



section \<open>A small checker used for concrete runs\<close>

text \<open>
  A checker whose output lines read \<^verbatim>\<open>N: message\<close>, and one whose lines read
  \<^verbatim>\<open>N:C: message\<close>. \<open>demo_match\<close> and \<open>demo_col_match\<close> are the anchored matches of the
  patterns \<^verbatim>\<open>^(?P<line>[0-9]+): (?P<error>.+)\<close> and
  \<^verbatim>\<open>^(?P<line>[0-9]+):(?P<col>[0-9]+): (?P<error>.+)\<close> at the start of a text. A pattern
  that begins with \<^verbatim>\<open>^\<close> can match at the start of the text only or, compiled with
  \<^verbatim>\<open>re.MULTILINE\<close>, at the start of every line: that is \<open>compiled\<close>. The environment
  compiles these two sources and no other (the source \<^verbatim>\<open>(\<close> does not compile); its command
  echoes the text it is given, so the text linted is also the checker's output.
\<close>

fun split_nl_aux :: "string \<Rightarrow> string \<Rightarrow> string list" where
  "split_nl_aux cur [] = [rev cur]"
| "split_nl_aux cur (c # cs) =
     (if c = CHR 0x0A then rev cur # split_nl_aux [] cs else split_nl_aux (c # cur) cs)"

definition demo_match :: "string \<Rightarrow> match option" where
  "demo_match s =
     (let ds = takeWhile is_digit s; rest = dropWhile is_digit s;
          msg = takeWhile (\<lambda>c. c \<noteq> CHR 0x0A) (drop 2 rest)
      in if ds \<noteq> [] \<and> take 2 rest = '': '' \<and> msg \<noteq> []
         then Some [(''line'', Some ds), (''error'', Some msg)]
         else None)"

definition demo_col_match :: "string \<Rightarrow> match option" where
  "demo_col_match s =
     (let ds = takeWhile is_digit s; rest = dropWhile is_digit s;
          cs = takeWhile is_digit (drop 1 rest); rest2 = dropWhile is_digit (drop 1 rest);
          msg = takeWhile (\<lambda>c. c \<noteq> CHR 0x0A) (drop 2 rest2)
      in if ds \<noteq> [] \<and> take 1 rest = '':'' \<and> cs \<noteq> [] \<and> take 2 rest2 = '': '' \<and> msg \<noteq> []
         then Some [(''line'', Some ds), (''col'', Some cs), (''error'', Some msg)]
         else None)"

definition compiled :: "(string \<Rightarrow> match option) \<Rightarrow> int \<Rightarrow> pattern" where
  "compiled f fl =
     \<lparr>finditer = (\<lambda>out. if fl AND 8 = 8 then List.map_filter f (split_nl_aux [] out)
                        else (case f out of Some m \<Rightarrow> [m] | None \<Rightarrow> [])),
      re_match = f\<rparr>"

definition demo_pattern :: pattern where
  "demo_pattern = compiled demo_match 8"

definition demo_compile :: "string \<Rightarrow> int \<Rightarrow> pattern option" where
  "demo_compile src fl =
     (if src = ''^(?P<line>[0-9]+): (?P<error>.+)'' then Some (compiled demo_match fl)
      else if src = ''^(?P<line>[0-9]+):(?P<col>[0-9]+): (?P<error>.+)''
      then Some (compiled demo_col_match fl)
      else None)"

definition demo_env :: env where
  "demo_env = \<lparr>communicate = (\<lambda>c code. code), full_line = (\<lambda>h r. (0, 0)),
                re_compile = demo_compile\<rparr>"

definition demo_class :: linter_class where
  "demo_class = \<lparr>cls_name = ''Demo'', language = LangStr ''python'', cmd = [''cat''],
                  regex = ''^(?P<line>[0-9]+): (?P<error>.+)'', multiline = False, flags = 0,
                  tab_size = 1, scope = ''keyword'', selector = None, outline = True,
                  needs_api = False, defaults = Some 0\<rparr>"

definition demo_view :: view where
  "demo_view = \<lparr>view_id = Some 7, view_syntax = Some ''Packages/Python/Python.tmLanguage'',
                 file_name = Some ''a.py''\<rparr>"

definition demo_world :: world where
  "demo_world = \<lparr>heap = (\<lambda>a. if a = 0 then [(''a'', PInt 1)] else []), next_addr = 1,
                  languages = [(''Demo'', demo_class)], linters = (\<lambda>v. None),
                  plugins = (\<lambda>n. if n = ''Demo'' then Some [(''a'', PInt 2)] else None),
                  next_inst = 0, trace = []\<rparr>"

definition demo_linter :: linter where
  "demo_linter = new_linter demo_env demo_class 0 demo_view ''Python'' (Some ''a.py'')"

definition demo_multiline_linter :: linter where
  "demo_multiline_linter =
     new_linter demo_env (demo_class\<lparr>multiline := True\<rparr>) 0 demo_view ''Python'' (Some ''a.py'')"


definition demo_bad_regex_linter :: linter where
  "demo_bad_regex_linter =
     new_linter demo_env (demo_class\<lparr>regex := ''(''\<rparr>) 0 demo_view ''Python'' (Some ''a.py'')"

definition demo_no_cmd_linter :: linter where
  "demo_no_cmd_linter =
     new_linter demo_env (demo_class\<lparr>cmd := []\<rparr>) 0 demo_view ''Python'' (Some ''a.py'')"

definition demo_no_cmd_world :: world where
  "demo_no_cmd_world =
     demo_world\<lparr>linters := (\<lambda>v. if v = 7 then Some [demo_no_cmd_linter] else None)\<rparr>"

definition demo_marked_highlight :: highlight where
  "demo_marked_highlight = hl_call (Line (Some 3)) (Highlight (Some ''abc'') ''keyword'' (Some True))"

definition demo_world_assigned :: world where
  "demo_world_assigned =
     demo_world\<lparr>linters := (linters demo_world)(7 \<mapsto> [demo_linter]), next_inst := 1\<rparr>"

definition demo_tab_env :: env where
  "demo_tab_env = demo_env\<lparr>communicate := (\<lambda>c code. ''1:6: bad'')\<rparr>"

definition demo_tab_linter :: linter where
  "demo_tab_linter =
     new_linter demo_tab_env
       (demo_class\<lparr>regex := ''^(?P<line>[0-9]+):(?P<col>[0-9]+): (?P<error>.+)'',
                    tab_size := 4\<rparr>)
       0 demo_view ''Python'' (Some ''a.py'')"

definition demo_late_no_cmd_linter :: linter where
  "demo_late_no_cmd_linter =
     new_linter demo_env (demo_class\<lparr>cmd := []\<rparr>) 1 demo_view ''Python'' (Some ''a.py'')"

definition demo_late_no_cmd_world :: world where
  "demo_late_no_cmd_world =
     demo_world\<lparr>linters := (\<lambda>v. if v = 7 then Some [demo_linter, demo_late_no_cmd_linter]
                                 else None)\<rparr>"

definition demo_sel_no_cmd_linter :: linter where
  "demo_sel_no_cmd_linter =
     new_linter demo_env (demo_class\<lparr>cmd := [], selector := Some ''source.python''\<rparr>) 1
       demo_view ''Python'' (Some ''a.py'')"

definition demo_sel_no_cmd_world :: world where
  "demo_sel_no_cmd_world =
     demo_world\<lparr>linters := (\<lambda>v. if v = 7 then Some [demo_linter, demo_sel_no_cmd_linter]
                                 else None)\<rparr>"



definition demo_code3 :: string where
  "demo_code3 = ''3: bad'' @ [CHR 0x0A] @ ''4: worse'' @ [CHR 0x0A] @ ''5: ugly''"


definition demo_sections3 :: sections where
  "demo_sections3 =
     (\<lambda>s. if s = ''source.python'' then Some [(10, 0, 6), (9, 7, 15), (8, 16, 23)] else None)"


section \<open>The output parser: what it yields\<close>

text \<open>
  C1. In multiline mode, on a non-empty output in which the pattern matches nowhere, the
  parser is claimed to yield exactly one result, the empty placeholder. The source tests
  the truth of the iterator that \<^verbatim>\<open>finditer\<close> returns, which is true even when it will
  yield nothing, so the branch that yields the placeholder is never taken: on the output
  \<^verbatim>\<open>ok\<close> the demo checker's pattern has no match and \<open>find_errors\<close> yields nothing at all.
\<close>

theorem find_errors_multiline_no_match_yields_nothing:
  "multiline (cls demo_multiline_linter)
   \<and> self_regex demo_multiline_linter = Compiled demo_pattern
   \<and> finditer demo_pattern ''ok'' = []
   \<and> find_errors demo_multiline_linter ''ok'' = []"
  by (simp add: find_errors_def demo_multiline_linter_def new_linter_def demo_env_def
        demo_class_def demo_pattern_def demo_compile_def compiled_def iterator_truthy_def
        List.map_filter_def demo_match_def is_digit_def)

text \<open>
  C4. A match is claimed to keep a missing row as absent. The defaults are stored under
  the key \<^verbatim>\<open>row\<close> while the value is read under the key \<^verbatim>\<open>line\<close>: for a match of a
  pattern with no group named \<^verbatim>\<open>line\<close> the read raises KeyError, and for a group
  \<^verbatim>\<open>line\<close> that took no part in the match \<^verbatim>\<open>int(None)\<close> raises TypeError. In neither
  case is a result with an absent row returned.
\<close>

theorem split_match_missing_row_raises:
  "split_match (Some [(''error'', Some ''boom'')]) = Inl KeyError
   \<and> split_match (Some [(''line'', None), (''error'', Some ''boom'')]) = Inl TypeError"
  by (simp add: split_match_def dict_update_def getitem_def)

section \<open>Settings\<close>

text \<open>
  C8. Computing the effective settings is claimed to leave the stored defaults of the
  definition unchanged. \<^verbatim>\<open>get_settings\<close> updates the defaults dict itself when it is
  non-empty: for the demo class, whose defaults are \<^verbatim>\<open>{'a': 1}\<close>, and plugin settings
  \<^verbatim>\<open>{'a': 2}\<close>, the defaults read \<^verbatim>\<open>{'a': 2}\<close> after the call.
\<close>

theorem get_settings_overwrites_defaults:
  "defaults demo_class = Some 0
   \<and> heap demo_world 0 = [(''a'', PInt 1)]
   \<and> heap (snd (get_settings demo_class demo_world)) 0 = [(''a'', PInt 2)]"
  by (simp add: get_settings_def demo_class_def demo_world_def dict_update_def)

section \<open>Column correction\<close>

lemma mark_tab_raises:
  "1 < tab_size (cls self) \<Longrightarrow> col_given col \<Longrightarrow>
   mark ev code row col near self = (Some NameError, self)"
  by (simp add: mark_def split: prod.splits)

text \<open>
  C3. For a reported column, a tab size above 1 and the text of the matched line, the
  corrected column is claimed to be the first index \<open>i\<close> with \<open>col - diff \<le> i\<close>. The source
  never computes one: the scan is written \<^verbatim>\<open>for i in xrange(len(code_line)):\<close>, the file
  is Python 3, and Python 3 has no \<^verbatim>\<open>xrange\<close>. For every instance with a tab size above 1
  and every real match that has a row and a column, the loop body of \<^verbatim>\<open>lint\<close> raises
  NameError and leaves the instance as it was: no highlight is requested and no message
  recorded.
\<close>

theorem lint_tab_column_raises_NameError:
  "1 < tab_size (cls self) \<longrightarrow> col_given col \<longrightarrow>
   lint_match ev code (Some g, Some row, col, msg, near) self = (Some NameError, self)"
  by (simp add: lint_match_def mark_tab_raises)

theorem lint_tab_column_raises_NameError_witness:
  "tab_size (cls demo_tab_linter) = 4
   \<and> find_errors demo_tab_linter ''1:6: bad'' =
       [Inr (Some [(''line'', Some ''1''), (''col'', Some ''6''), (''error'', Some ''bad'')],
             Some 0, ColInt 5, Some ''bad'', None)]
   \<and> lint_match demo_tab_env (CHR 0x09 # ''foo = 1'')
         (Some [(''line'', Some ''1''), (''col'', Some ''6''), (''error'', Some ''bad'')],
          Some 0, ColInt 5, Some ''bad'', None) demo_tab_linter
       = (Some NameError, demo_tab_linter)
   \<and> fst (pre_lint demo_tab_env (CHR 0x09 # ''foo = 1'') None (demo_tab_linter, demo_world))
       = Some NameError
   \<and> errors (fst (snd (pre_lint demo_tab_env (CHR 0x09 # ''foo = 1'') None
                          (demo_tab_linter, demo_world)))) = Some []
   \<and> hl_calls (highlight (fst (snd (pre_lint demo_tab_env (CHR 0x09 # ''foo = 1'') None
                          (demo_tab_linter, demo_world))))) = []"
proof -
  have t: "tab_size (cls demo_tab_linter) = 4"
    by (simp add: demo_tab_linter_def new_linter_def demo_class_def)
  have c: "col_given (ColInt 5)" by simp
  have f: "find_errors demo_tab_linter ''1:6: bad'' =
       [Inr (Some [(''line'', Some ''1''), (''col'', Some ''6''), (''error'', Some ''bad'')],
             Some 0, ColInt 5, Some ''bad'', None)]"
    by code_simp
  have p: "fst (pre_lint demo_tab_env (CHR 0x09 # ''foo = 1'') None (demo_tab_linter, demo_world))
       = Some NameError"
    by code_simp
  have e: "errors (fst (snd (pre_lint demo_tab_env (CHR 0x09 # ''foo = 1'') None
                          (demo_tab_linter, demo_world)))) = Some []"
    by code_simp
  have h: "hl_calls (highlight (fst (snd (pre_lint demo_tab_env (CHR 0x09 # ''foo = 1'') None
                          (demo_tab_linter, demo_world))))) = []"
    by code_simp
  from t c f p e h show ?thesis
    using lint_tab_column_raises_NameError [of demo_tab_linter "ColInt 5" demo_tab_env
        "CHR 0x09 # ''foo = 1''"
        "[(''line'', Some ''1''), (''col'', Some ''6''), (''error'', Some ''bad'')]"
        0 "Some ''bad''" None]
    by simp
qed

section \<open>What lint records\<close>

lemma split_match_cases:
  "split_match m = Inl KeyError \<or> split_match m = Inl TypeError \<or> split_match m = Inl ValueError
   \<or> (\<exists>r c e n. split_match m = Inr (m, Some r, c, e, n))
   \<or> (m = None \<and> split_match m = Inr (None, None, ColNone, Some [], None))"
  by (simp add: split_match_def getitem_def Let_def split: option.splits sum.splits)



lemma find_errors_items:
  "x \<in> set (find_errors self out) \<Longrightarrow> x = Inl AttributeError \<or> (\<exists>m. x = split_match m)"
  by (auto simp: find_errors_def match_error_def iterator_truthy_def
      split: regex_attr.splits if_splits)









section \<open>Incomplete definitions\<close>

lemma mark_not_NIE: "fst (mark ev code r c n s) \<noteq> Some NotImplementedError"
  by (simp add: mark_def Let_def split: prod.splits colval.splits option.splits)

lemma error_not_NIE: "fst (error line e s) \<noteq> Some NotImplementedError"
  by (simp add: error_def Let_def split: option.splits)

lemma lint_match_not_NIE: "fst (lint_match ev code r s) \<noteq> Some NotImplementedError"
proof -
  obtain m row c e n where r: "r = (m, row, c, e, n)" by (cases r) auto
  show ?thesis
  proof (cases "m = None \<or> row = None")
    case True
    then show ?thesis using r error_not_NIE by (auto simp: lint_match_def)
  next
    case False
    then obtain k where k: "row = Some k" by auto
    obtain e1 s1 where mk: "mark ev code k c n s = (e1, s1)"
      by (cases "mark ev code k c n s") auto
    have "e1 \<noteq> Some NotImplementedError"
      using mark_not_NIE [of ev code k c n s] mk by simp
    then show ?thesis
      using False r k mk error_not_NIE [of row e s1] by (cases e1) (auto simp: lint_match_def)
  qed
qed

lemma find_errors_not_NIE: "Inl NotImplementedError \<notin> set (find_errors self out)"
proof
  assume "Inl NotImplementedError \<in> set (find_errors self out)"
  from find_errors_items [OF this]
  obtain m where "split_match m = Inl NotImplementedError" by auto
  then show False using split_match_cases [of m] by auto
qed

lemma lint_loop_not_NIE:
  "Inl NotImplementedError \<notin> set xs \<Longrightarrow>
   fst (lint_loop ev code xs s) \<noteq> Some NotImplementedError"
proof (induction xs arbitrary: s)
  case Nil
  show ?case by simp
next
  case (Cons x xs)
  show ?case
  proof (cases x)
    case (Inl e)
    then show ?thesis using Cons.prems by auto
  next
    case (Inr r)
    obtain e1 s1 where lm: "lint_match ev code r s = (e1, s1)"
      by (cases "lint_match ev code r s") auto
    have "e1 \<noteq> Some NotImplementedError"
      using lint_match_not_NIE [of ev code r s] lm by simp
    moreover have "fst (lint_loop ev code xs s1) \<noteq> Some NotImplementedError"
      using Cons.IH Cons.prems by simp
    ultimately show ?thesis using Inr lm by (cases e1) auto
  qed
qed

lemma lint_NIE_iff:
  "(fst (lint ev code (self, w)) = Some NotImplementedError) =
   (\<not> (lang_truthy (language (cls self)) \<and> cmd (cls self) \<noteq> []
        \<and> regex_truthy (self_regex self)))"
proof (cases "lang_truthy (language (cls self)) \<and> cmd (cls self) \<noteq> []
              \<and> regex_truthy (self_regex self)")
  case False
  then show ?thesis by (auto simp: lint_def)
next
  case True
  have "fst (lint_loop ev code (find_errors self (communicate ev (cmd (cls self)) code)) self)
        \<noteq> Some NotImplementedError"
    by (rule lint_loop_not_NIE) (rule find_errors_not_NIE)
  then show ?thesis using True by (auto simp: lint_def Let_def split: prod.splits)
qed

lemma pre_lint_NIE_iff:
  "code \<noteq> [] \<Longrightarrow>
   (fst (pre_lint ev code hl (self, w)) = Some NotImplementedError) =
   (\<not> (lang_truthy (language (cls self)) \<and> cmd (cls self) \<noteq> []
        \<and> regex_truthy (self_regex self)))"
  by (simp add: pre_lint_def Let_def lint_NIE_iff)

lemma lint_whole_append:
  "lint_whole ev fname code (xs @ ys) w =
     (case lint_whole ev fname code xs w of
        (Some e, xs1, w1) \<Rightarrow> (Some e, xs1 @ ys, w1)
      | (None, xs1, w1) \<Rightarrow>
          (case lint_whole ev fname code ys w1 of (e, ys1, w2) \<Rightarrow> (e, xs1 @ ys1, w2)))"
proof (induction xs arbitrary: w)
  case Nil
  show ?case by (simp split: prod.splits)
next
  case (Cons x xs)
  show ?case
    by (simp add: Cons.IH split: prod.splits option.splits)
qed

lemma lint_selectors_append:
  "lint_selectors ev code secs (xs @ ys) w =
     (case lint_selectors ev code secs xs w of
        (Some e, xs1, w1) \<Rightarrow> (Some e, xs1 @ ys, w1)
      | (None, xs1, w1) \<Rightarrow>
          (case lint_selectors ev code secs ys w1 of (e, ys1, w2) \<Rightarrow> (e, xs1 @ ys1, w2)))"
proof (induction xs arbitrary: w)
  case Nil
  show ?case by (simp split: prod.splits)
next
  case (Cons x xs)
  show ?case
    by (simp add: Cons.IH split: prod.splits option.splits)
qed

lemma lint_whole_snoc_selector:
  assumes "selector_truthy (selector (cls l))"
      and "fst (lint_whole ev fname code xs w) = None"
  shows "lint_whole ev fname code (xs @ [l]) w =
     (None, fst (snd (lint_whole ev fname code xs w)) @ [l],
      snd (get_settings (cls l) (snd (snd (lint_whole ev fname code xs w)))))"
proof -
  obtain xs1 w1 where x: "lint_whole ev fname code xs w = (None, xs1, w1)"
    using assms(2) by (cases "lint_whole ev fname code xs w") auto
  have one: "lint_whole ev fname code [l] w1 = (None, [l], snd (get_settings (cls l) w1))"
    using assms(1) by (simp split: prod.splits)
  show ?thesis
    by (simp add: lint_whole_append x one del: lint_whole.simps)
qed

lemma lint_whole_head_raises:
  assumes "\<not> truthy (dict_get (heap (snd (get_settings (cls l) w))
                                  (fst (get_settings (cls l) w))) ''disable'')"
      and "\<not> selector_truthy (selector (cls l))"
      and "code \<noteq> []"
      and "\<not> (lang_truthy (language (cls l)) \<and> cmd (cls l) \<noteq> []
              \<and> regex_truthy (self_regex l))"
  shows "fst (lint_whole ev fname code (l # ls) w) = Some NotImplementedError"
proof -
  obtain sa w1 where gs: "get_settings (cls l) w = (sa, w1)"
    by (cases "get_settings (cls l) w") auto
  obtain e l1 w2 where pl: "pre_lint ev code None (l\<lparr>filename := fname\<rparr>, w1) = (e, l1, w2)"
    by (cases "pre_lint ev code None (l\<lparr>filename := fname\<rparr>, w1)") auto
  have "fst (pre_lint ev code None (l\<lparr>filename := fname\<rparr>, w1)) = Some NotImplementedError"
    using assms(3,4) by (simp add: pre_lint_NIE_iff)
  then have e: "e = Some NotImplementedError" using pl by simp
  show ?thesis using assms(1,2) gs pl e by simp
qed

lemma lint_sections_incomplete:
  assumes "\<not> (lang_truthy (language (cls l)) \<and> cmd (cls l) \<noteq> []
              \<and> regex_truthy (self_regex l))"
  shows "fst (lint_sections ev code ss hl acc (l, w)) =
     (if \<exists>(off, left, right) \<in> set ss. py_slice code left right \<noteq> []
      then Some NotImplementedError else None)"
  using assms
proof (induction ss arbitrary: hl acc l w)
  case Nil
  show ?case by simp
next
  case (Cons s ss)
  obtain off left right where s: "s = (off, left, right)" by (cases s) auto
  show ?case
  proof (cases "py_slice code left right = []")
    case True
    let ?l1 = "l\<lparr>errors := Some [], highlight := hl_call (Shift off left) hl\<rparr>"
    have pl: "pre_lint ev (py_slice code left right) (Some (hl_call (Shift off left) hl)) (l, w)
          = (None, ?l1, w)"
      using True by (simp add: pre_lint_def)
    have inc: "\<not> (lang_truthy (language (cls ?l1)) \<and> cmd (cls ?l1) \<noteq> []
              \<and> regex_truthy (self_regex ?l1))"
      using Cons.prems by simp
    show ?thesis
      using s True pl Cons.IH [OF inc] by simp
  next
    case False
    have "fst (pre_lint ev (py_slice code left right) (Some (hl_call (Shift off left) hl)) (l, w))
          = Some NotImplementedError"
      using False Cons.prems by (simp add: pre_lint_NIE_iff)
    then show ?thesis
      using s False by (auto split: prod.splits option.splits)
  qed
qed

lemma lint_selected_incomplete:
  assumes "\<not> (lang_truthy (language (cls l)) \<and> cmd (cls l) \<noteq> []
              \<and> regex_truthy (self_regex l))"
      and "selector (cls l) = Some sel" and "secs sel = Some ss"
      and "\<exists>(off, left, right) \<in> set ss. py_slice code left right \<noteq> []"
  shows "fst (lint_selected ev code secs (l, w)) = Some NotImplementedError"
proof -
  have "fst (lint_sections ev code ss
               (Highlight (Some code) (scope (cls l)) (Some (outline (cls l)))) [] (l, w))
        = Some NotImplementedError"
    using lint_sections_incomplete [OF assms(1)] assms(4) by simp
  then show ?thesis
    using assms(2,3) by (auto simp: lint_selected_def split: prod.splits option.splits)
qed

lemma lint_view_first_loop_raises:
  assumes "linters w vid = Some (pre @ l # post)"
      and "lint_whole ev fname code pre w = (None, pre1, w1)"
      and "\<not> truthy (dict_get (heap (snd (get_settings (cls l) w1))
                                  (fst (get_settings (cls l) w1))) ''disable'')"
      and "\<not> selector_truthy (selector (cls l))"
      and "code \<noteq> []"
      and "\<not> (lang_truthy (language (cls l)) \<and> cmd (cls l) \<noteq> []
              \<and> regex_truthy (self_regex l))"
  shows "fst (lint_view ev vid fname code secs w) = Some NotImplementedError"
proof -
  have "fst (lint_whole ev fname code (l # post) w1) = Some NotImplementedError"
    by (rule lint_whole_head_raises [OF assms(3,4,5,6)])
  then obtain ls1 w2 where
    "lint_whole ev fname code (l # post) w1 = (Some NotImplementedError, ls1, w2)"
    by (cases "lint_whole ev fname code (l # post) w1") auto
  then have "lint_whole ev fname code (pre @ l # post) w
             = (Some NotImplementedError, pre1 @ ls1, w2)"
    using assms(2) by (simp add: lint_whole_append del: lint_whole.simps)
  then show ?thesis
    using assms(1) by (simp add: lint_view_def del: lint_whole.simps)
qed

lemma lint_view_second_loop_raises:
  assumes "linters w vid = Some ls"
      and "lint_whole ev fname code ls w = (None, pre @ l # post, w1)"
      and "lint_selectors ev code secs pre w1 = (None, pre1, w2)"
      and "selector (cls l) = Some sel" and "sel \<noteq> []" and "secs sel = Some ss"
      and "\<exists>(off, left, right) \<in> set ss. py_slice code left right \<noteq> []"
      and "\<not> (lang_truthy (language (cls l)) \<and> cmd (cls l) \<noteq> []
              \<and> regex_truthy (self_regex l))"
  shows "fst (lint_view ev vid fname code secs w) = Some NotImplementedError"
proof -
  have "fst (lint_selected ev code secs (l, w2)) = Some NotImplementedError"
    using assms(8,4,6,7) by (rule lint_selected_incomplete [where secs = secs])
  then have "fst (lint_selectors ev code secs (l # post) w2) = Some NotImplementedError"
    using assms(4,5) by (auto split: prod.splits option.splits)
  then obtain ls1 w3 where
    "lint_selectors ev code secs (l # post) w2 = (Some NotImplementedError, ls1, w3)"
    by (cases "lint_selectors ev code secs (l # post) w2") auto
  then have "lint_selectors ev code secs (pre @ l # post) w1
             = (Some NotImplementedError, pre1 @ ls1, w3)"
    using assms(3) by (simp add: lint_selectors_append del: lint_selectors.simps)
  then show ?thesis
    using assms(1,2) by (simp add: lint_view_def del: lint_selectors.simps lint_whole.simps)
qed

text \<open>
  C6, as stated: \<^verbatim>\<open>lint\<close> is claimed to raise NotImplementedError exactly when the
  definition lacks a language name, a command or a compiled output pattern. An instance
  whose pattern source did not compile has no compiled pattern, yet its \<^verbatim>\<open>regex\<close>
  attribute, the source text, is true: \<^verbatim>\<open>lint\<close> passes the test, runs the checker and
  raises AttributeError when it calls the pattern.
\<close>

theorem lint_uncompiled_pattern_is_not_incomplete:
  "self_regex demo_bad_regex_linter = RegexSrc ''(''
   \<and> fst (lint demo_env ''x'' (demo_bad_regex_linter, demo_world)) = Some AttributeError"
proof
  show "self_regex demo_bad_regex_linter = RegexSrc ''(''"
    by (simp add: demo_bad_regex_linter_def new_linter_def demo_env_def demo_class_def
          demo_compile_def)
  show "fst (lint demo_env ''x'' (demo_bad_regex_linter, demo_world)) = Some AttributeError"
    by code_simp
qed

text \<open>
  C6, amended. \<^verbatim>\<open>lint\<close> raises NotImplementedError if and only if the language, the
  command or the \<^verbatim>\<open>regex\<close> attribute of the instance is empty (a pattern source that did
  not compile is not empty). When it raises it, the instance and the world are as they
  were: the checker has not been invoked. Nothing catches it. \<^verbatim>\<open>pre_lint\<close> on a non-empty
  text raises it under the same condition. \<^verbatim>\<open>lint_view\<close> raises it from its first loop,
  whenever the pass reaches such an instance, at any place among the instances of the
  view, enabled and without a selector, with a non-empty text; and from its second loop,
  whenever the pass reaches such an instance with a selector that has a section of
  non-empty text, at any place among the instances and the sections.
\<close>

theorem lint_incomplete_definition:
  "((fst (lint ev code (self, w)) = Some NotImplementedError) =
    (\<not> (lang_truthy (language (cls self)) \<and> cmd (cls self) \<noteq> []
         \<and> regex_truthy (self_regex self))))
   \<and> (fst (lint ev code (self, w)) = Some NotImplementedError \<longrightarrow>
        lint ev code (self, w) = (Some NotImplementedError, self, w))
   \<and> (code \<noteq> [] \<longrightarrow>
        (fst (pre_lint ev code hl (self, w)) = Some NotImplementedError) =
        (\<not> (lang_truthy (language (cls self)) \<and> cmd (cls self) \<noteq> []
             \<and> regex_truthy (self_regex self))))
   \<and> (linters w vid = Some (pre @ self # post) \<longrightarrow>
        lint_whole ev fname code pre w = (None, pre1, w1) \<longrightarrow>
        \<not> truthy (dict_get (heap (snd (get_settings (cls self) w1))
                               (fst (get_settings (cls self) w1))) ''disable'') \<longrightarrow>
        \<not> selector_truthy (selector (cls self)) \<longrightarrow>
        code \<noteq> [] \<longrightarrow>
        \<not> (lang_truthy (language (cls self)) \<and> cmd (cls self) \<noteq> []
            \<and> regex_truthy (self_regex self)) \<longrightarrow>
        fst (lint_view ev vid fname code secs w) = Some NotImplementedError)
   \<and> (linters w vid = Some ls \<longrightarrow>
        lint_whole ev fname code ls w = (None, pre @ self # post, w1) \<longrightarrow>
        lint_selectors ev code secs pre w1 = (None, pre1, w2) \<longrightarrow>
        selector (cls self) = Some sel \<longrightarrow> sel \<noteq> [] \<longrightarrow> secs sel = Some ss \<longrightarrow>
        (\<exists>(off, left, right) \<in> set ss. py_slice code left right \<noteq> []) \<longrightarrow>
        \<not> (lang_truthy (language (cls self)) \<and> cmd (cls self) \<noteq> []
            \<and> regex_truthy (self_regex self)) \<longrightarrow>
        fst (lint_view ev vid fname code secs w) = Some NotImplementedError)"
proof (intro conjI impI)
  show a: "(fst (lint ev code (self, w)) = Some NotImplementedError) =
    (\<not> (lang_truthy (language (cls self)) \<and> cmd (cls self) \<noteq> []
         \<and> regex_truthy (self_regex self)))"
    by (rule lint_NIE_iff)
  show "lint ev code (self, w) = (Some NotImplementedError, self, w)"
    if "fst (lint ev code (self, w)) = Some NotImplementedError"
    using that unfolding a by (simp add: lint_def)
  show "(fst (pre_lint ev code hl (self, w)) = Some NotImplementedError) =
        (\<not> (lang_truthy (language (cls self)) \<and> cmd (cls self) \<noteq> []
             \<and> regex_truthy (self_regex self)))"
    if "code \<noteq> []"
    using that by (rule pre_lint_NIE_iff)
  show "fst (lint_view ev vid fname code secs w) = Some NotImplementedError"
    if "linters w vid = Some (pre @ self # post)"
      and "lint_whole ev fname code pre w = (None, pre1, w1)"
      and "\<not> truthy (dict_get (heap (snd (get_settings (cls self) w1))
                               (fst (get_settings (cls self) w1))) ''disable'')"
      and "\<not> selector_truthy (selector (cls self))"
      and "code \<noteq> []"
      and "\<not> (lang_truthy (language (cls self)) \<and> cmd (cls self) \<noteq> []
            \<and> regex_truthy (self_regex self))"
    using that by (rule lint_view_first_loop_raises)
  show "fst (lint_view ev vid fname code secs w) = Some NotImplementedError"
    if "linters w vid = Some ls"
      and "lint_whole ev fname code ls w = (None, pre @ self # post, w1)"
      and "lint_selectors ev code secs pre w1 = (None, pre1, w2)"
      and "selector (cls self) = Some sel" and "sel \<noteq> []" and "secs sel = Some ss"
      and "\<exists>(off, left, right) \<in> set ss. py_slice code left right \<noteq> []"
      and "\<not> (lang_truthy (language (cls self)) \<and> cmd (cls self) \<noteq> []
            \<and> regex_truthy (self_regex self))"
    using that by (rule lint_view_second_loop_raises [where secs = secs])
qed

theorem lint_incomplete_definition_witness:
  "cmd (cls demo_late_no_cmd_linter) = []
   \<and> lint demo_env ''x'' (demo_late_no_cmd_linter, demo_late_no_cmd_world)
       = (Some NotImplementedError, demo_late_no_cmd_linter, demo_late_no_cmd_world)
   \<and> fst (pre_lint demo_env ''x'' None (demo_late_no_cmd_linter, demo_late_no_cmd_world))
       = Some NotImplementedError
   \<and> linters demo_late_no_cmd_world 7 = Some [demo_linter, demo_late_no_cmd_linter]
   \<and> fst (lint_view demo_env 7 None ''x'' (\<lambda>s. None) demo_late_no_cmd_world)
       = Some NotImplementedError
   \<and> linters demo_sel_no_cmd_world 7 = Some [demo_linter, demo_sel_no_cmd_linter]
   \<and> cmd (cls demo_sel_no_cmd_linter) = []
   \<and> demo_sections3 ''source.python'' = Some [(10, 0, 6), (9, 7, 15), (8, 16, 23)]
   \<and> fst (lint_view demo_env 7 None demo_code3 demo_sections3 demo_sel_no_cmd_world)
       = Some NotImplementedError"
proof -
  let ?l = demo_late_no_cmd_linter
  let ?w = demo_late_no_cmd_world
  let ?A = "lint_whole demo_env None ''x'' [demo_linter] ?w"
  have c: "cmd (cls ?l) = []"
    by (simp add: demo_late_no_cmd_linter_def new_linter_def demo_class_def)
  have r: "linters ?w 7 = Some [demo_linter, ?l]"
    by (simp add: demo_late_no_cmd_world_def demo_world_def)
  then have r': "linters ?w 7 = Some ([demo_linter] @ ?l # [])" by simp
  have "fst ?A = None" by code_simp
  then have a: "?A = (None, fst (snd ?A), snd (snd ?A))" by (metis prod.collapse)
  have d: "\<not> truthy (dict_get (heap (snd (get_settings (cls ?l) (snd (snd ?A))))
             (fst (get_settings (cls ?l) (snd (snd ?A))))) ''disable'')"
    by code_simp
  have s: "\<not> selector_truthy (selector (cls ?l))"
    by (simp add: demo_late_no_cmd_linter_def new_linter_def demo_class_def)
  have n: "''x'' \<noteq> []" by simp
  note th = lint_incomplete_definition [where ev = demo_env and code = "''x''" and self = ?l
      and w = ?w and hl = None and vid = 7 and pre = "[demo_linter]" and post = "[]"
      and fname = None and secs = "\<lambda>s. None"
      and ?pre1.0 = "fst (snd ?A)" and ?w1.0 = "snd (snd ?A)"]
  from th c have t1: "lint demo_env ''x'' (?l, ?w) = (Some NotImplementedError, ?l, ?w)"
    by simp
  from th c n have t2: "fst (pre_lint demo_env ''x'' None (?l, ?w)) = Some NotImplementedError"
    by simp
  from th c r' a d s n
  have t3: "fst (lint_view demo_env 7 None ''x'' (\<lambda>s. None) ?w) = Some NotImplementedError"
    by blast
  let ?m = demo_sel_no_cmd_linter
  let ?v = demo_sel_no_cmd_world
  let ?B = "lint_whole demo_env None demo_code3 [demo_linter] ?v"
  let ?w2 = "snd (get_settings (cls ?m) (snd (snd ?B)))"
  let ?C = "lint_selectors demo_env demo_code3 demo_sections3 (fst (snd ?B)) ?w2"
  have c2: "cmd (cls ?m) = []"
    by (simp add: demo_sel_no_cmd_linter_def new_linter_def demo_class_def)
  have r2: "linters ?v 7 = Some [demo_linter, ?m]"
    by (simp add: demo_sel_no_cmd_world_def demo_world_def)
  have sel: "selector (cls ?m) = Some ''source.python''"
    by (simp add: demo_sel_no_cmd_linter_def new_linter_def demo_class_def)
  have ne: "''source.python'' \<noteq> []" by simp
  have secs: "demo_sections3 ''source.python'' = Some [(10, 0, 6), (9, 7, 15), (8, 16, 23)]"
    by (simp add: demo_sections3_def)
  have "fst ?B = None" by code_simp
  have st: "selector_truthy (selector (cls ?m))" using sel by simp
  have "lint_whole demo_env None demo_code3 ([demo_linter] @ [?m]) ?v
        = (None, fst (snd ?B) @ [?m], ?w2)"
    using st \<open>fst ?B = None\<close> by (rule lint_whole_snoc_selector)
  then have lw: "lint_whole demo_env None demo_code3 [demo_linter, ?m] ?v
        = (None, fst (snd ?B) @ ?m # [], ?w2)"
    by simp
  have "fst ?C = None" by code_simp
  then have ls: "?C = (None, fst (snd ?C), snd (snd ?C))" by (metis prod.collapse)
  have ex: "\<exists>(off, left, right) \<in> set [(10, 0, 6), (9, 7, 15), (8, 16, 23)].
              py_slice demo_code3 left right \<noteq> []"
    by (simp add: demo_code3_def py_slice_def)
  note th2 = lint_incomplete_definition [where ev = demo_env and code = demo_code3
      and self = ?m and w = ?v and vid = 7 and ls = "[demo_linter, ?m]"
      and pre = "fst (snd ?B)" and post = "[]" and fname = None and secs = demo_sections3
      and ?w1.0 = ?w2 and ?pre1.0 = "fst (snd ?C)" and ?w2.0 = "snd (snd ?C)"
      and sel = "''source.python''" and ss = "[(10, 0, 6), (9, 7, 15), (8, 16, 23)]"]
  from th2 c2 r2 lw ls sel ne secs ex
  have t4: "fst (lint_view demo_env 7 None demo_code3 demo_sections3 ?v)
            = Some NotImplementedError"
    by blast
  from c t1 t2 r t3 r2 c2 secs t4 show ?thesis by blast
qed

section \<open>Empty text\<close>

text \<open>
  C9, as stated: \<^verbatim>\<open>pre_lint\<close> on an empty text is claimed to install a fresh highlight
  state. A caller that passes a highlight, as \<^verbatim>\<open>lint_view\<close> does for every section, gets
  that object installed, with the calls already made on it.
\<close>

theorem pre_lint_empty_keeps_passed_highlight:
  "hl_calls (highlight (fst (snd
     (pre_lint demo_env [] (Some demo_marked_highlight) (demo_linter, demo_world)))))
   = [Line (Some 3)]"
  by code_simp

text \<open>
  C9, amended. For every instance, \<^verbatim>\<open>pre_lint\<close> with an empty text resets the errors to
  the empty map, installs the highlight passed by the caller, or a fresh one when none is
  passed, and returns: no exception is raised, whatever the definition lacks, and the world
  is unchanged, so the checker is not invoked.
\<close>

theorem pre_lint_empty_text:
  "pre_lint ev [] hl (self, w) =
     (None,
      self\<lparr>errors := Some [],
           highlight := (case hl of
                           Some h \<Rightarrow> h
                         | None \<Rightarrow> Highlight (Some []) (scope (cls self))
                                     (Some (outline (cls self))))\<rparr>,
      w)"
  by (simp add: pre_lint_def)

theorem pre_lint_empty_text_witness:
  "cmd (cls demo_no_cmd_linter) = []
   \<and> pre_lint demo_env [] None (demo_no_cmd_linter, demo_no_cmd_world) =
       (None,
        demo_no_cmd_linter\<lparr>errors := Some [],
                           highlight := Highlight (Some []) ''keyword'' (Some True)\<rparr>,
        demo_no_cmd_world)"
proof -
  have c: "cmd (cls demo_no_cmd_linter) = []"
    by (simp add: demo_no_cmd_linter_def new_linter_def demo_class_def)
  have sc: "scope (cls demo_no_cmd_linter) = ''keyword''"
    by (simp add: demo_no_cmd_linter_def new_linter_def demo_class_def)
  have ol: "outline (cls demo_no_cmd_linter) = True"
    by (simp add: demo_no_cmd_linter_def new_linter_def demo_class_def)
  from c sc ol show ?thesis
    using pre_lint_empty_text [of demo_env None demo_no_cmd_linter demo_no_cmd_world] by simp
qed

section \<open>Assigning twice\<close>

lemma new_linter_syn: "syn (new_linter ev c i v s f) = s"
  by (simp add: new_linter_def Let_def)

lemma make_linters_syn:
  "make_linters ev v s langs n = (l # ls, n1) \<Longrightarrow> syn l = s"
proof (induction langs arbitrary: n)
  case Nil
  then show ?case by simp
next
  case (Cons a langs)
  obtain name entry where a: "a = (name, entry)" by (cases a) auto
  show ?case
  proof (cases "can_lint entry s")
    case True
    then show ?thesis using Cons.prems a by (auto simp: new_linter_syn split: prod.splits)
  next
    case False
    then show ?thesis using Cons.prems Cons.IH a by auto
  qed
qed

lemma make_linters_empty:
  "make_linters ev v s langs n = ([], n1) \<Longrightarrow> n1 = n"
proof (induction langs arbitrary: n)
  case Nil
  then show ?case by simp
next
  case (Cons a langs)
  obtain name entry where a: "a = (name, entry)" by (cases a) auto
  show ?case using Cons.prems Cons.IH a by (auto split: if_splits prod.splits)
qed

lemma remove_absent: "linters w vid = None \<Longrightarrow> remove vid w = w"
  by (simp add: remove_def)

lemma linters_remove: "linters (remove vid w) vid = None"
  by (simp add: remove_def split: option.splits)

lemma remove_idem: "remove vid (remove vid w) = remove vid w"
  by (rule remove_absent) (rule linters_remove)

lemma languages_remove: "languages (remove vid w) = languages w"
  by (simp add: remove_def split: option.splits)

lemma next_inst_remove: "next_inst (remove vid w) = next_inst w"
  by (simp add: remove_def split: option.splits)

lemma assign_again_changes_nothing:
  assumes "assign ev v w = Inr (r, w1)"
  shows "assign ev v w1 = Inr (None, w1)"
proof -
  from assms obtain vid where vid: "view_id v = Some vid"
    by (cases "view_id v") (auto simp: assign_def)
  show ?thesis
  proof (cases "view_syntax v = None \<or> view_syntax v = Some []")
    case True
    then have "w1 = remove vid w" using assms vid by (auto simp: assign_def)
    then show ?thesis using True vid by (auto simp: assign_def remove_idem)
  next
    case False
    then obtain syn0 where syn0: "view_syntax v = Some syn0" "syn0 \<noteq> []" by auto
    define tok where "tok = (case syntax_search syn0 of Some g \<Rightarrow> g | None \<Rightarrow> syn0)"
    show ?thesis
    proof (cases "tok = []")
      case True
      then have "w1 = remove vid w"
        using assms vid syn0 by (auto simp: assign_def tok_def Let_def)
      then show ?thesis
        using True vid syn0 by (auto simp: assign_def tok_def Let_def remove_idem)
    next
      case ne: False
      have A: "assign ev v w' =
          (if (case linters w' vid of Some (l # _) \<Rightarrow> syn l = tok | _ \<Rightarrow> False)
           then Inr (None, w')
           else (case make_linters ev v tok (languages w') (next_inst w') of
                   (ls, n) \<Rightarrow>
                     if ls \<noteq> []
                     then Inr (Some ls, w'\<lparr>linters := (linters w')(vid \<mapsto> ls), next_inst := n\<rparr>)
                     else Inr (None, remove vid (w'\<lparr>next_inst := n\<rparr>))))" for w'
        using vid syn0 ne unfolding tok_def by (simp add: assign_def Let_def)
      show ?thesis
      proof (cases "case linters w vid of Some (l # _) \<Rightarrow> syn l = tok | _ \<Rightarrow> False")
        case True
        then have "w1 = w" using assms unfolding A by simp
        then show ?thesis using True unfolding A by simp
      next
        case sc: False
        obtain ls n where ml: "make_linters ev v tok (languages w) (next_inst w) = (ls, n)"
          by (cases "make_linters ev v tok (languages w) (next_inst w)") auto
        show ?thesis
        proof (cases ls)
          case Nil
          then have n: "n = next_inst w" using ml make_linters_empty by blast
          have w1: "w1 = remove vid w"
            using assms sc ml Nil n unfolding A by simp
          have l1: "linters w1 vid = None" unfolding w1 by (rule linters_remove)
          have ml1: "make_linters ev v tok (languages w1) (next_inst w1) = ([], next_inst w1)"
            unfolding w1 languages_remove next_inst_remove using ml Nil n by simp
          show ?thesis
            unfolding A using l1 ml1 by (simp add: remove_absent)
        next
          case (Cons l ls')
          then have sl: "syn l = tok" using ml make_linters_syn by blast
          have w1: "w1 = w\<lparr>linters := (linters w)(vid \<mapsto> ls), next_inst := n\<rparr>"
            using assms sc ml Cons unfolding A by auto
          show ?thesis
            unfolding A using sl Cons unfolding w1 by simp
        qed
      qed
    qed
  qed
qed


lemma assign_stores_returned_set:
  assumes "assign ev v w = Inr (Some ls, w1)"
  shows "\<exists>vid. view_id v = Some vid \<and> linters w1 vid = Some ls"
  using assms
  by (auto simp: assign_def Let_def split: option.splits if_splits prod.splits list.splits)

text \<open>
  C2. Calling \<^verbatim>\<open>assign\<close> twice for the same view and syntax is claimed to return the same
  instance set both times. Whenever a call stores a new instance set and returns it, the
  next call for the same view finds the stored instances bound to the same syntax token
  and leaves by the bare \<^verbatim>\<open>return\<close> of the short-circuit: the registry still holds the
  set, nothing else has changed, and the value returned is None, not the set.
\<close>

theorem assign_twice_second_returns_none:
  "assign ev v w = Inr (Some ls, w1) \<longrightarrow>
     assign ev v w1 = Inr (None, w1)
     \<and> (\<exists>vid. view_id v = Some vid \<and> linters w1 vid = Some ls)"
  using assign_again_changes_nothing [of ev v w "Some ls" w1]
    assign_stores_returned_set [of ev v w ls w1]
  by blast

theorem assign_twice_second_returns_none_witness:
  "assign demo_env demo_view demo_world = Inr (Some [demo_linter], demo_world_assigned)
   \<and> assign demo_env demo_view demo_world_assigned = Inr (None, demo_world_assigned)
   \<and> view_id demo_view = Some 7
   \<and> linters demo_world_assigned 7 = Some [demo_linter]"
proof -
  have a: "assign demo_env demo_view demo_world = Inr (Some [demo_linter], demo_world_assigned)"
    by (simp add: Let_def assign_def demo_view_def syntax_search_def ends_with_def
        demo_world_def can_lint_def lower_def lower_char_def demo_class_def demo_linter_def
        demo_world_assigned_def new_linter_def)
  have v: "view_id demo_view = Some 7" by (simp add: demo_view_def)
  from assign_twice_second_returns_none [of demo_env demo_view demo_world "[demo_linter]"
      demo_world_assigned] a v
  show ?thesis by auto
qed

section \<open>Merging the sections of a view\<close>




























end
